theory Spec2Isabelle
  imports Main "HOL-Library.Word" "HOL-Library.Sublist"
begin

section \<open>The exception classes of libmesh\_exceptions.h\<close>

text \<open>
  The header declares seven classes. Six derive from \<open>std::logic_error\<close> or
  \<open>std::runtime_error\<close>; \<open>SolverException\<close> derives from \<open>std::exception\<close>
  directly. The three standard classes are part of the hierarchy a handler can name.
\<close>

datatype cls =
    Std_exception
  | Std_logic_error
  | Std_runtime_error
  | LogicError
  | NotImplemented
  | FileError
  | ConvergenceFailure
  | DynamicCastFailure
  | FloatingPointException
  | SolverException

text \<open>The direct base class written after the colon of each class head.\<close>

fun base :: "cls \<Rightarrow> cls option" where
  "base Std_exception = None"
| "base Std_logic_error = Some Std_exception"
| "base Std_runtime_error = Some Std_exception"
| "base LogicError = Some Std_logic_error"
| "base NotImplemented = Some Std_logic_error"
| "base FileError = Some Std_runtime_error"
| "base ConvergenceFailure = Some Std_runtime_error"
| "base DynamicCastFailure = Some Std_runtime_error"
| "base FloatingPointException = Some Std_runtime_error"
| "base SolverException = Some Std_exception"

text \<open>Distance to the top of the hierarchy; the measure under which \<open>is_a\<close> terminates.\<close>

fun depth :: "cls \<Rightarrow> nat" where
  "depth Std_exception = 0"
| "depth Std_logic_error = 1"
| "depth Std_runtime_error = 1"
| "depth SolverException = 1"
| "depth c = 2"

text \<open>
  \<open>is_a c d\<close>: class \<open>c\<close> is \<open>d\<close> or has \<open>d\<close> as a (public, unambiguous) base. This is
  the test a handler \<open>catch(d)\<close> applies to a thrown object of dynamic class \<open>c\<close>.
\<close>

function is_a :: "cls \<Rightarrow> cls \<Rightarrow> bool" where
  "is_a c d = (c = d \<or> (case base c of None \<Rightarrow> False | Some b \<Rightarrow> is_a b d))"
  by pat_completeness auto
termination
proof (relation "measure (\<lambda>(c, d). depth c)")
  show "wf (measure (\<lambda>(c, d). depth c))" by simp
next
  fix c d b
  assume "base c = Some b"
  then show "((b, d), (c, d)) \<in> measure (\<lambda>(c, d). depth c)"
    by (cases c) auto
qed

declare is_a.simps [simp del]

text \<open>The seven classes the header itself declares.\<close>

definition variants :: "cls list" where
  "variants = [LogicError, NotImplemented, FileError, ConvergenceFailure,
               DynamicCastFailure, FloatingPointException, SolverException]"

text \<open>The two capability roots of the specification.\<close>

definition logic_condition :: "cls \<Rightarrow> bool" where
  "logic_condition c = is_a c Std_logic_error"

definition runtime_condition :: "cls \<Rightarrow> bool" where
  "runtime_condition c = is_a c Std_runtime_error"

section \<open>Strings and stream output\<close>

text \<open>
  \<open>what()\<close> returns \<open>const char *\<close>: the bytes of the stored \<open>std::string\<close> up to its
  first zero byte, which is what \<open>c_str()\<close> denotes as a C string.
\<close>

definition c_str :: "string \<Rightarrow> string" where
  "c_str s = takeWhile (\<lambda>c. c \<noteq> CHR 0x00) s"

text \<open>Decimal digits of a number, and a minus sign for negative values.\<close>

definition digit_char :: "nat \<Rightarrow> char" where
  "digit_char d = ''0123456789'' ! d"

function show_nat :: "nat \<Rightarrow> string" where
  "show_nat n = (if n < 10 then [digit_char n] else show_nat (n div 10) @ [digit_char (n mod 10)])"
  by pat_completeness auto
termination
  by (relation "measure (\<lambda>n. n)") auto

declare show_nat.simps [simp del]

definition show_int :: "int \<Rightarrow> string" where
  "show_int i = (if i < 0 then CHR ''-'' # show_nat (nat (- i)) else show_nat (nat i))"

text \<open>
  A default-constructed \<open>std::ostringstream\<close> takes the global locale of the process, and
  \<open>operator<<(int)\<close> punctuates the digits as the \<open>numpunct\<close> facet of that locale says:
  \<open>grouping\<close> gives the sizes of the digit groups from the right (the last size repeats, a
  size of zero ends the grouping) and \<open>thousands_sep\<close> is written between groups.
\<close>

record numpunct =
  thousands_sep :: char
  grouping :: "nat list"

text \<open>The classic locale groups nothing.\<close>

definition classic :: numpunct where
  "classic = \<lparr>thousands_sep = CHR '','', grouping = []\<rparr>"

text \<open>A locale that groups by thousands with a comma, as \<open>en_US\<close> does.\<close>

definition en_US :: numpunct where
  "en_US = \<lparr>thousands_sep = CHR '','', grouping = [3]\<rparr>"

text \<open>The digits, least significant first, with the separators put in.\<close>

function group_digits :: "nat list \<Rightarrow> char \<Rightarrow> string \<Rightarrow> string" where
  "group_digits gs sep ds =
     (case gs of
        [] \<Rightarrow> ds
      | g # rest \<Rightarrow>
          if g = 0 \<or> length ds \<le> g then ds
          else take g ds @ sep # group_digits (if rest = [] then [g] else rest) sep (drop g ds))"
  by pat_completeness auto
termination
  by (relation "measure (\<lambda>(gs, sep, ds). length ds)") auto

declare group_digits.simps [simp del]

text \<open>\<open>operator<<(int)\<close> of an output stream with the default flags, under a locale.\<close>

definition put_int :: "numpunct \<Rightarrow> int \<Rightarrow> string" where
  "put_int loc i =
     (let ds = rev (group_digits (grouping loc) (thousands_sep loc) (rev (show_nat (nat \<bar>i\<bar>))))
      in if i < 0 then CHR ''-'' # ds else ds)"

text \<open>\<open>std::endl\<close> writes a newline and flushes.\<close>

definition endl :: string where
  "endl = [CHR 0x0A]"

section \<open>Exception objects and their constructors\<close>

text \<open>
  An object of a class derived from \<open>std::logic_error\<close> or \<open>std::runtime_error\<close> is
  its dynamic class and the string its base stores. A \<open>SolverException\<close> is its two
  public data members, \<open>error_code\<close> (an \<open>int\<close>, 32 bits) and \<open>what_message\<close>.
\<close>

datatype exn =
    Std_derived cls string
  | Solver_exn "32 word" string

text \<open>The constructor calls a call site can write as the operand of a raise.\<close>

datatype expr =
    New_LogicError
  | New_LogicError_msg string
  | New_NotImplemented
  | New_FileError string
  | New_ConvergenceFailure
  | New_DynamicCastFailure
  | New_FloatingPointException
  | New_SolverException "32 word"

text \<open>
  The object a constructor call builds, under the global locale \<open>loc\<close> in force when it
  runs. Only \<open>SolverException\<close> consults the locale, through its string stream. Whether
  the free store can supply the strings is not part of this model: \<open>construct\<close> gives the
  object of a call that completes.
\<close>

fun construct :: "numpunct \<Rightarrow> expr \<Rightarrow> exn" where
  "construct loc New_LogicError = Std_derived LogicError ''Error in libMesh internal logic''"
| "construct loc (New_LogicError_msg msg) = Std_derived LogicError msg"
| "construct loc New_NotImplemented = Std_derived NotImplemented ''Error: not implemented!''"
| "construct loc (New_FileError filename) =
     Std_derived FileError (''Error accessing file: '' @ filename)"
| "construct loc New_ConvergenceFailure =
     Std_derived ConvergenceFailure ''Unrecoverable failure to converge''"
| "construct loc New_DynamicCastFailure = Std_derived DynamicCastFailure ''Failed dynamic cast!''"
| "construct loc New_FloatingPointException = Std_derived FloatingPointException ''libmesh FPE!''"
| "construct loc (New_SolverException error_code_in) =
     (let error_code = error_code_in;
          oss = ''Error code '' @ put_int loc (sint error_code) @ '' during solve.'' @ endl
      in Solver_exn error_code oss)"

text \<open>The dynamic class of an object.\<close>

fun class_of :: "exn \<Rightarrow> cls" where
  "class_of (Std_derived c m) = c"
| "class_of (Solver_exn code m) = SolverException"

text \<open>
  \<open>what()\<close>: inherited from the standard base for the six derived classes, overridden
  by \<open>SolverException\<close> to return \<open>what_message.c_str()\<close>.
\<close>

fun what :: "exn \<Rightarrow> string" where
  "what (Std_derived c m) = c_str m"
| "what (Solver_exn code what_message) = c_str what_message"

text \<open>
  The members an instance offers to code that holds it. \<open>what()\<close> is a const member
  function of every class. \<open>error_code\<close> and \<open>what_message\<close> are public, non-const
  data members of \<open>SolverException\<close> only: they can be read and assigned.
\<close>

datatype member_access =
    Call_what
  | Read_error_code
  | Read_what_message
  | Assign_error_code "32 word"
  | Assign_what_message string

text \<open>The object after an access; \<open>None\<close> where the class has no such member.\<close>

fun access :: "member_access \<Rightarrow> exn \<Rightarrow> exn option" where
  "access Call_what e = Some e"
| "access Read_error_code (Solver_exn code m) = Some (Solver_exn code m)"
| "access Read_what_message (Solver_exn code m) = Some (Solver_exn code m)"
| "access (Assign_error_code v) (Solver_exn code m) = Some (Solver_exn v m)"
| "access (Assign_what_message v) (Solver_exn code m) = Some (Solver_exn code v)"
| "access a (Std_derived c m) = None"



text \<open>The value of the \<open>error_code\<close> member, for the class that has it.\<close>

fun error_code :: "exn \<Rightarrow> 32 word option" where
  "error_code (Solver_exn code m) = Some code"
| "error_code (Std_derived c m) = None"

section \<open>Call sites and the two expansions of the macros\<close>

text \<open>
  A call site is written in the vocabulary of the header: \<open>LIBMESH_THROW(e)\<close>,
  and \<open>libmesh_try { ... }\<close> followed by one or more \<open>libmesh_catch(T) { ... }\<close>.
  \<open>Effect n\<close> stands for any other statement of the calling code; what it
  does is visible as the event \<open>Eff n\<close>.
\<close>

datatype stmt =
    Effect nat
  | Seq stmt stmt
  | LIBMESH_THROW expr
  | libmesh_try stmt catches
and catches =
    libmesh_catch cls stmt
  | libmesh_catch_then cls stmt catches

text \<open>The C++ statements the macros expand to.\<close>

datatype cpp =
    Effect_stmt nat
  | Compound cpp cpp
  | Throw expr
  | Abort
  | Do_while_0 cpp
  | If_0 cpp
  | Try cpp handler_seq
and handler_seq =
    Handler cls cpp
  | Handler_then cls cpp handler_seq

text \<open>
  With \<open>LIBMESH_ENABLE_EXCEPTIONS\<close> defined: \<open>LIBMESH_THROW(e)\<close> is
  \<open>do { throw e; } while (0)\<close>, \<open>libmesh_try\<close> is \<open>try\<close> and
  \<open>libmesh_catch(e)\<close> is \<open>catch(e)\<close>.
\<close>

fun expand_enabled :: "stmt \<Rightarrow> cpp"
and expand_catches_enabled :: "catches \<Rightarrow> handler_seq" where
  "expand_enabled (Effect n) = Effect_stmt n"
| "expand_enabled (Seq p q) = Compound (expand_enabled p) (expand_enabled q)"
| "expand_enabled (LIBMESH_THROW e) = Do_while_0 (Throw e)"
| "expand_enabled (libmesh_try b hs) = Try (expand_enabled b) (expand_catches_enabled hs)"
| "expand_catches_enabled (libmesh_catch T h) = Handler T (expand_enabled h)"
| "expand_catches_enabled (libmesh_catch_then T h hs) =
     Handler_then T (expand_enabled h) (expand_catches_enabled hs)"

text \<open>
  Without it: \<open>LIBMESH_THROW(e)\<close> is \<open>do { std::abort(); } while (0)\<close> (the operand
  is dropped), \<open>libmesh_try\<close> is empty and \<open>libmesh_catch(e)\<close> is \<open>if (0)\<close>.
\<close>

fun expand_disabled :: "stmt \<Rightarrow> cpp"
and expand_catches_disabled :: "catches \<Rightarrow> cpp" where
  "expand_disabled (Effect n) = Effect_stmt n"
| "expand_disabled (Seq p q) = Compound (expand_disabled p) (expand_disabled q)"
| "expand_disabled (LIBMESH_THROW e) = Do_while_0 Abort"
| "expand_disabled (libmesh_try b hs) =
     Compound (expand_disabled b) (expand_catches_disabled hs)"
| "expand_catches_disabled (libmesh_catch T h) = If_0 (expand_disabled h)"
| "expand_catches_disabled (libmesh_catch_then T h hs) =
     Compound (If_0 (expand_disabled h)) (expand_catches_disabled hs)"

text \<open>The build-time switch \<open>exceptions_enabled\<close>.\<close>

definition expand :: "bool \<Rightarrow> stmt \<Rightarrow> cpp" where
  "expand exceptions_enabled p =
     (if exceptions_enabled then expand_enabled p else expand_disabled p)"

section \<open>Executing the expanded statements\<close>

text \<open>
  The state of an execution is the list of events so far. Evaluating the operand
  of \<open>throw\<close> constructs the object (\<open>Constructed\<close>); the raise is numbered by the
  position of that event. \<open>Entered T r\<close> records that the body of a handler
  \<open>catch(T)\<close> was entered for raise \<open>r\<close>.
\<close>

datatype event =
    Eff nat
  | Constructed exn
  | Entered cls nat

datatype outcome =
    Normal
  | Raised nat exn
  | Aborted

fun exec :: "numpunct \<Rightarrow> cpp \<Rightarrow> event list \<Rightarrow> outcome \<times> event list"
and handle :: "numpunct \<Rightarrow> handler_seq \<Rightarrow> nat \<Rightarrow> exn \<Rightarrow> event list \<Rightarrow> outcome \<times> event list" where
  "exec loc (Effect_stmt n) s = (Normal, s @ [Eff n])"
| "exec loc (Compound p q) s =
     (case exec loc p s of
        (Normal, s1) \<Rightarrow> exec loc q s1
      | (Raised r e, s1) \<Rightarrow> (Raised r e, s1)
      | (Aborted, s1) \<Rightarrow> (Aborted, s1))"
| "exec loc (Throw e) s = (Raised (length s) (construct loc e), s @ [Constructed (construct loc e)])"
| "exec loc Abort s = (Aborted, s)"
| "exec loc (Do_while_0 p) s = exec loc p s"
| "exec loc (If_0 p) s = (Normal, s)"
| "exec loc (Try p hs) s =
     (case exec loc p s of
        (Normal, s1) \<Rightarrow> (Normal, s1)
      | (Raised r e, s1) \<Rightarrow> handle loc hs r e s1
      | (Aborted, s1) \<Rightarrow> (Aborted, s1))"
| "handle loc (Handler T h) r e s =
     (if is_a (class_of e) T then exec loc h (s @ [Entered T r]) else (Raised r e, s))"
| "handle loc (Handler_then T h hs) r e s =
     (if is_a (class_of e) T then exec loc h (s @ [Entered T r]) else handle loc hs r e s)"

text \<open>The events an execution added to the state it started from.\<close>

definition added :: "event list \<Rightarrow> event list \<Rightarrow> event list" where
  "added s s' = drop (length s) s'"

text \<open>How often a handler body was entered for raise \<open>r\<close> among the events \<open>t\<close>.\<close>

fun entered_for :: "nat \<Rightarrow> event \<Rightarrow> bool" where
  "entered_for r (Entered T r') = (r' = r)"
| "entered_for r (Eff n) = False"
| "entered_for r (Constructed e) = False"

definition entries :: "nat \<Rightarrow> event list \<Rightarrow> nat" where
  "entries r t = length (filter (entered_for r) t)"

fun is_Eff :: "event \<Rightarrow> bool" where
  "is_Eff (Eff n) = True"
| "is_Eff (Constructed e) = False"
| "is_Eff (Entered T r) = False"




section \<open>Facts about the hierarchy, strings and number output\<close>

lemma is_a_Std_exception [simp]: "is_a Std_exception d = (d = Std_exception)"
  by (subst is_a.simps) auto

lemma is_a_Std_logic_error [simp]:
  "is_a Std_logic_error d = (d = Std_logic_error \<or> d = Std_exception)"
  by (subst is_a.simps) auto

lemma is_a_Std_runtime_error [simp]:
  "is_a Std_runtime_error d = (d = Std_runtime_error \<or> d = Std_exception)"
  by (subst is_a.simps) auto

lemma is_a_variant [simp]:
  "is_a LogicError d = (d = LogicError \<or> d = Std_logic_error \<or> d = Std_exception)"
  "is_a NotImplemented d = (d = NotImplemented \<or> d = Std_logic_error \<or> d = Std_exception)"
  "is_a FileError d = (d = FileError \<or> d = Std_runtime_error \<or> d = Std_exception)"
  "is_a ConvergenceFailure d =
     (d = ConvergenceFailure \<or> d = Std_runtime_error \<or> d = Std_exception)"
  "is_a DynamicCastFailure d =
     (d = DynamicCastFailure \<or> d = Std_runtime_error \<or> d = Std_exception)"
  "is_a FloatingPointException d =
     (d = FloatingPointException \<or> d = Std_runtime_error \<or> d = Std_exception)"
  "is_a SolverException d = (d = SolverException \<or> d = Std_exception)"
  by (auto simp: is_a.simps [of LogicError] is_a.simps [of NotImplemented]
      is_a.simps [of FileError] is_a.simps [of ConvergenceFailure]
      is_a.simps [of DynamicCastFailure] is_a.simps [of FloatingPointException]
      is_a.simps [of SolverException])

lemma is_a_refl [simp]: "is_a c c"
  by (subst is_a.simps) simp

lemma c_str_no_zero: "CHR 0x00 \<notin> set s \<Longrightarrow> c_str s = s"
  unfolding c_str_def by (induction s) auto

lemma c_str_append_no_zero: "CHR 0x00 \<notin> set p \<Longrightarrow> c_str (p @ s) = p @ c_str s"
  unfolding c_str_def by (induction p) auto

lemma digit_char_no_zero: "d < 10 \<Longrightarrow> digit_char d \<noteq> CHR 0x00"
proof -
  assume "d < 10"
  then have "d \<in> {0, 1, 2, 3, 4, 5, 6, 7, 8, 9}" by auto
  then show ?thesis by (auto simp: digit_char_def)
qed

lemma show_nat_no_zero: "CHR 0x00 \<notin> set (show_nat n)"
proof (induction n rule: show_nat.induct)
  case (1 n)
  show ?case
  proof (cases "n < 10")
    case True
    then show ?thesis
      using digit_char_no_zero [of n] by (subst show_nat.simps) simp
  next
    case False
    then have "n mod 10 < 10" by simp
    with False 1 show ?thesis
      using digit_char_no_zero [of "n mod 10"] by (subst show_nat.simps) simp
  qed
qed

lemma show_nat_7: "show_nat 7 = ''7''"
  by (subst show_nat.simps) (simp add: digit_char_def)

lemma show_nat_1234567: "show_nat 1234567 = ''1234567''"
  by (simp add: show_nat.simps digit_char_def)

lemma show_int_no_zero: "CHR 0x00 \<notin> set (show_int i)"
  by (simp add: show_int_def show_nat_no_zero)

lemma group_digits_Nil: "group_digits [] sep ds = ds"
  by (subst group_digits.simps) simp

lemma group_digits_short: "length ds \<le> 1 \<Longrightarrow> group_digits gs sep ds = ds"
  by (subst group_digits.simps) (auto split: list.splits)

lemma group_digits_set: "set (group_digits gs sep ds) \<subseteq> insert sep (set ds)"
proof (induction gs sep ds rule: group_digits.induct)
  case (1 gs sep ds)
  show ?case
  proof (cases gs)
    case Nil
    then show ?thesis by (auto simp: group_digits_Nil)
  next
    case (Cons g rest)
    show ?thesis
    proof (cases "g = 0 \<or> length ds \<le> g")
      case True
      with Cons show ?thesis by (subst group_digits.simps) auto
    next
      case False
      with Cons 1 have "set (group_digits (if rest = [] then [g] else rest) sep (drop g ds))
          \<subseteq> insert sep (set (drop g ds))" by simp
      moreover have "set (take g ds) \<subseteq> set ds" "set (drop g ds) \<subseteq> set ds"
        by (simp_all add: set_take_subset set_drop_subset)
      ultimately show ?thesis using Cons False
        by (subst group_digits.simps) auto
    qed
  qed
qed

lemma put_int_classic: "put_int classic i = show_int i"
proof -
  have "nat \<bar>i\<bar> = (if i < 0 then nat (- i) else nat i)" by simp
  then show ?thesis
    by (simp add: put_int_def show_int_def classic_def group_digits_Nil Let_def)
qed

lemma put_int_7: "put_int loc 7 = ''7''"
  by (simp add: put_int_def show_nat_7 group_digits_short Let_def)

lemma put_int_no_zero:
  assumes "thousands_sep loc \<noteq> CHR 0x00"
  shows "CHR 0x00 \<notin> set (put_int loc i)"
proof -
  have "CHR 0x00 \<notin> set (group_digits (grouping loc) (thousands_sep loc) (rev (show_nat n)))"
    for n
  proof -
    have "set (group_digits (grouping loc) (thousands_sep loc) (rev (show_nat n)))
        \<subseteq> insert (thousands_sep loc) (set (rev (show_nat n)))"
      by (rule group_digits_set)
    with assms show_nat_no_zero [of n] show ?thesis by auto
  qed
  then show ?thesis by (simp add: put_int_def Let_def)
qed


lemma access_assign_what_message:
  "access (Assign_what_message v) e = Some e' \<Longrightarrow> what e' = c_str v"
  by (cases e) auto

section \<open>The error taxonomy\<close>

text \<open>
  Claim C7. A \<open>LogicError\<close> constructed with no argument has the description
  "Error in libMesh internal logic", exactly.
\<close>

theorem LogicError_default_description:
  "what (construct loc New_LogicError) = ''Error in libMesh internal logic''"
  by (simp add: c_str_def)

text \<open>
  Claim C4, as stated, fails in its second part: the description is not a function of the
  code alone. The constructor's string stream takes the global locale, so the code
  1234567 is rendered "1234567" under the classic locale and "1,234,567" under a locale
  that groups by thousands, and the two descriptions differ.
\<close>

theorem SolverException_description_counterexample:
  "what (construct classic (New_SolverException 1234567))
     \<noteq> what (construct en_US (New_SolverException 1234567))"
proof -
  have a: "put_int classic 1234567 = ''1234567''"
    by (simp add: put_int_classic show_int_def show_nat_1234567)
  have g: "group_digits [3] (CHR '','') ''7654321'' = ''765,432,1''"
    by (simp add: group_digits.simps)
  have b: "put_int en_US 1234567 = ''1,234,567''"
    by (simp add: put_int_def en_US_def show_nat_1234567 g Let_def)
  show ?thesis
    by (simp add: a b Let_def c_str_def endl_def)
qed

text \<open>
  Claim C4, amended. For every \<open>int\<close> code \<open>c\<close> and every global locale, a
  \<open>SolverException\<close> constructed with \<open>c\<close> has \<open>error_code\<close> equal to \<open>c\<close>. Its
  description is a function of \<open>c\<close> and of the global locale in force at construction: the
  C string of "Error code ", the rendering of \<open>c\<close> by that locale, " during solve." and a
  newline, and that whole string when the locale's separator is not the zero byte. Under
  the classic locale the rendering is the plain decimal one. For \<open>c = 7\<close> the description
  is "Error code 7 during solve." with the newline under every locale, and it contains "7".
\<close>

theorem SolverException_code_and_description:
  "error_code (construct loc (New_SolverException c)) = Some c
   \<and> what (construct loc (New_SolverException c))
       = c_str (''Error code '' @ put_int loc (sint c) @ '' during solve.'' @ endl)
   \<and> (thousands_sep loc \<noteq> CHR 0x00 \<longrightarrow>
        what (construct loc (New_SolverException c))
          = ''Error code '' @ put_int loc (sint c) @ '' during solve.'' @ endl)
   \<and> what (construct classic (New_SolverException c))
       = ''Error code '' @ show_int (sint c) @ '' during solve.'' @ endl
   \<and> what (construct loc (New_SolverException 7)) = ''Error code 7 during solve.'' @ endl
   \<and> sublist ''7'' (what (construct loc (New_SolverException 7)))"
proof -
  have a: "what (construct l (New_SolverException d))
       = c_str (''Error code '' @ put_int l (sint d) @ '' during solve.'' @ endl)" for l d
    by (simp add: Let_def)
  have n: "c_str (''Error code '' @ x @ '' during solve.'' @ endl)
       = ''Error code '' @ x @ '' during solve.'' @ endl" if "CHR 0x00 \<notin> set x" for x
    using that by (intro c_str_no_zero) (simp add: endl_def)
  have b: "thousands_sep loc \<noteq> CHR 0x00 \<Longrightarrow>
        what (construct loc (New_SolverException c))
          = ''Error code '' @ put_int loc (sint c) @ '' during solve.'' @ endl"
    unfolding a by (rule n) (rule put_int_no_zero)
  have k: "what (construct classic (New_SolverException c))
       = ''Error code '' @ show_int (sint c) @ '' during solve.'' @ endl"
    unfolding a put_int_classic by (rule n) (rule show_int_no_zero)
  have s7: "put_int loc (sint (7 :: 32 word)) = ''7''"
    by (simp add: put_int_7)
  have c: "what (construct loc (New_SolverException 7)) = ''Error code 7 during solve.'' @ endl"
    unfolding a s7 by (simp add: c_str_def endl_def)
  have d: "sublist ''7'' (what (construct loc (New_SolverException 7)))"
    unfolding c by (simp add: endl_def sublist_code(3))
  have e: "error_code (construct loc (New_SolverException c)) = Some c"
    by (simp add: Let_def)
  show ?thesis
    by (intro conjI impI) (rule e, rule a, erule b, rule k, rule c, rule d)
qed

theorem SolverException_code_and_description_witness:
  "thousands_sep en_US \<noteq> CHR 0x00
   \<and> error_code (construct en_US (New_SolverException 1234567)) = Some 1234567
   \<and> what (construct en_US (New_SolverException 1234567))
       = ''Error code '' @ put_int en_US (sint (1234567 :: 32 word)) @ '' during solve.'' @ endl"
proof -
  have h: "thousands_sep en_US \<noteq> CHR 0x00" by (simp add: en_US_def)
  note t = SolverException_code_and_description [of en_US 1234567]
  note t1 = t [THEN conjunct1]
  note t3 = t [THEN conjunct2, THEN conjunct2, THEN conjunct1, THEN mp, OF h]
  show ?thesis by (intro conjI) (rule h, rule t1, rule t3)
qed

text \<open>
  Claim C3, as stated, fails for a filename with an embedded zero byte: \<open>what()\<close> is a
  C string, so for the three bytes \<open>a\<close>, zero, \<open>b\<close> the description is
  "Error accessing file: a", which does not contain the filename.
\<close>

theorem FileError_description_counterexample:
  "\<not> sublist [CHR ''a'', CHR 0x00, CHR ''b'']
       (what (construct classic (New_FileError [CHR ''a'', CHR 0x00, CHR ''b''])))"
  by (simp add: c_str_def sublist_code(3))

text \<open>
  Claim C3, amended. For every filename \<open>F\<close> the description is the C string of
  "Error accessing file: " followed by \<open>F\<close>. When \<open>F\<close> has no zero byte (the empty
  string, path separators and spaces included), the description is exactly
  "Error accessing file: " followed by \<open>F\<close> and so contains \<open>F\<close> byte for byte. For
  "missing.dat" it is "Error accessing file: missing.dat".
\<close>

theorem FileError_description:
  "what (construct loc (New_FileError F)) = c_str (''Error accessing file: '' @ F)
   \<and> (CHR 0x00 \<notin> set F \<longrightarrow>
        what (construct loc (New_FileError F)) = ''Error accessing file: '' @ F
        \<and> sublist F (what (construct loc (New_FileError F))))
   \<and> what (construct loc (New_FileError ''missing.dat'')) = ''Error accessing file: missing.dat''"
proof -
  have p: "CHR 0x00 \<notin> set ''Error accessing file: ''" by simp
  have a: "what (construct loc (New_FileError G)) = ''Error accessing file: '' @ c_str G" for G
    using c_str_append_no_zero [OF p, of G] by simp
  have b: "CHR 0x00 \<notin> set F \<Longrightarrow> sublist F (''Error accessing file: '' @ F)"
    using sublist_appendI [of F "''Error accessing file: ''" "[]"] by simp
  have c: "c_str ''missing.dat'' = ''missing.dat''" by (simp add: c_str_def)
  show ?thesis
    using a [of F] a [of "''missing.dat''"] b c c_str_no_zero [of F]
      c_str_append_no_zero [OF p, of F] by auto
qed

theorem FileError_description_witness:
  "CHR 0x00 \<notin> set ''run 1/out.dat''
   \<and> what (construct classic (New_FileError ''run 1/out.dat'')) = ''Error accessing file: run 1/out.dat''
   \<and> sublist ''run 1/out.dat'' (what (construct classic (New_FileError ''run 1/out.dat'')))"
proof -
  have h: "CHR 0x00 \<notin> set ''run 1/out.dat''" by simp
  have e: "''Error accessing file: '' @ ''run 1/out.dat'' = ''Error accessing file: run 1/out.dat''"
    by simp
  from FileError_description [where loc = classic and F = "''run 1/out.dat''"] h
  have a: "what (construct classic (New_FileError ''run 1/out.dat''))
             = ''Error accessing file: '' @ ''run 1/out.dat''"
    and b: "sublist ''run 1/out.dat'' (what (construct classic (New_FileError ''run 1/out.dat'')))"
    by blast+
  show ?thesis using h a [unfolded e] b by blast
qed

text \<open>
  Claim C10, as stated, fails for a message with an embedded zero byte: the description of
  \<open>LogicError\<close> built from the bytes \<open>a\<close>, zero, \<open>b\<close> is "a".
\<close>

theorem LogicError_message_counterexample:
  "what (construct classic (New_LogicError_msg [CHR ''a'', CHR 0x00, CHR ''b'']))
     \<noteq> [CHR ''a'', CHR 0x00, CHR ''b'']"
  by (simp add: c_str_def)

text \<open>
  Claim C10, amended. For every message \<open>msg\<close>, the description of a \<open>LogicError\<close>
  constructed with \<open>msg\<close> is \<open>msg\<close> read as a C string: \<open>msg\<close> up to its first zero byte,
  with nothing put before it and no default text. When \<open>msg\<close> has no zero byte the
  description equals \<open>msg\<close>.
\<close>

theorem LogicError_message_description:
  "what (construct loc (New_LogicError_msg msg)) = c_str msg
   \<and> (CHR 0x00 \<notin> set msg \<longrightarrow> what (construct loc (New_LogicError_msg msg)) = msg)"
  by (simp add: c_str_no_zero)

theorem LogicError_message_description_witness:
  "CHR 0x00 \<notin> set ''bad state'' \<and> what (construct classic (New_LogicError_msg ''bad state'')) = ''bad state''"
proof -
  have h: "CHR 0x00 \<notin> set ''bad state''" by simp
  show ?thesis
    using h LogicError_message_description [where loc = classic and msg = "''bad state''"] by simp
qed

text \<open>
  Claim C1, as stated, fails for \<open>SolverException\<close>: it derives from \<open>std::exception\<close>
  directly and is under neither root.
\<close>

theorem capability_roots_counterexample:
  "\<not> (logic_condition SolverException \<or> runtime_condition SolverException)"
  by (simp add: logic_condition_def runtime_condition_def)

text \<open>
  Claim C1, amended. Every class of the header derives from \<open>std::exception\<close>, so a
  handler for \<open>std::exception\<close> matches every object a constructor of the header builds
  and is entered for it. \<open>LogicError\<close> and \<open>NotImplemented\<close>, and no other class of the
  header, are under the logic-condition root \<open>std::logic_error\<close>; \<open>FileError\<close>,
  \<open>ConvergenceFailure\<close>, \<open>DynamicCastFailure\<close> and \<open>FloatingPointException\<close>, and no other,
  are under the runtime-condition root \<open>std::runtime_error\<close>. \<open>SolverException\<close> has
  \<open>std::exception\<close> as its direct base and is under neither root.
\<close>

theorem capability_roots:
  "c \<in> set variants \<Longrightarrow>
     is_a c Std_exception
     \<and> (logic_condition c \<longleftrightarrow> c = LogicError \<or> c = NotImplemented)
     \<and> (runtime_condition c \<longleftrightarrow>
          c = FileError \<or> c = ConvergenceFailure \<or> c = DynamicCastFailure
          \<or> c = FloatingPointException)
     \<and> base SolverException = Some Std_exception
     \<and> class_of (construct loc e) \<in> set variants
     \<and> handle loc (Handler Std_exception h) r (construct loc e) s
         = exec loc h (s @ [Entered Std_exception r])"
proof -
  assume c: "c \<in> set variants"
  have v: "class_of (construct loc e) \<in> set variants"
    by (cases e) (simp_all add: variants_def Let_def)
  have x: "is_a k Std_exception" if "k \<in> set variants" for k
    using that by (auto simp: variants_def)
  from x [OF v] have h: "handle loc (Handler Std_exception h) r (construct loc e) s
         = exec loc h (s @ [Entered Std_exception r])"
    by simp
  from c have l: "logic_condition c \<longleftrightarrow> c = LogicError \<or> c = NotImplemented"
    by (auto simp: variants_def logic_condition_def)
  from c have rt: "runtime_condition c \<longleftrightarrow>
          c = FileError \<or> c = ConvergenceFailure \<or> c = DynamicCastFailure
          \<or> c = FloatingPointException"
    by (auto simp: variants_def runtime_condition_def)
  show ?thesis using x [OF c] l rt v h by simp
qed

theorem capability_roots_witness:
  "FileError \<in> set variants \<and> is_a FileError Std_exception
   \<and> runtime_condition FileError \<and> \<not> logic_condition FileError"
proof -
  have h: "FileError \<in> set variants" by (simp add: variants_def)
  note t = capability_roots [OF h]
  note a = t [THEN conjunct1]
  note l = t [THEN conjunct2, THEN conjunct1]
  note r = t [THEN conjunct2, THEN conjunct2, THEN conjunct1]
  from l have nl: "\<not> logic_condition FileError" by simp
  from r have rr: "runtime_condition FileError" by simp
  show ?thesis by (intro conjI) (rule h, rule a, rule rr, rule nl)
qed




section \<open>Handler entries of an execution\<close>

lemma entries_Nil [simp]: "entries r [] = 0"
  by (simp add: entries_def)

lemma entries_append [simp]: "entries r (t @ u) = entries r t + entries r u"
  by (simp add: entries_def)

lemma entries_Cons [simp]:
  "entries r (Eff n # t) = entries r t"
  "entries r (Constructed e # t) = entries r t"
  "entries r (Entered T r' # t) = (if r' = r then Suc (entries r t) else entries r t)"
  by (simp_all add: entries_def)















section \<open>Propagation in the two build modes\<close>

lemma added_append [simp]: "added s (s @ t) = t"
  by (simp add: added_def)


lemma dead_handlers:
  fixes p :: stmt and hs :: catches
  shows "True"
    and "exec loc (expand_catches_disabled hs) s = (Normal, s)"
  by (induction p and hs) auto

lemma disabled_try: "exec loc (expand_disabled (libmesh_try b hs)) s = exec loc (expand_disabled b) s"
  by (cases "exec loc (expand_disabled b) s" rule: prod.exhaust; cases "fst (exec loc (expand_disabled b) s)")
     (auto simp: dead_handlers(2) split: outcome.splits)

lemma disabled_only_effects:
  fixes p :: stmt and hs :: catches
  shows "exec loc (expand_disabled p) s = (out, s') \<Longrightarrow>
           \<exists>t. s' = s @ t \<and> list_all is_Eff t \<and> (out = Normal \<or> out = Aborted)"
    and "True"
proof (induction p and hs arbitrary: s out s')
  case (Effect n)
  then show ?case by auto
next
  case (Seq p q)
  obtain o1 s1 where p: "exec loc (expand_disabled p) s = (o1, s1)"
    by (cases "exec loc (expand_disabled p) s") auto
  from Seq.IH(1) [OF p] obtain t1
    where t1: "s1 = s @ t1" "list_all is_Eff t1" "o1 = Normal \<or> o1 = Aborted" by auto
  from t1(3) show ?case
  proof
    assume n: "o1 = Normal"
    with p Seq.prems have q: "exec loc (expand_disabled q) s1 = (out, s')" by simp
    from Seq.IH(2) [OF q] obtain t2
      where "s' = s1 @ t2" "list_all is_Eff t2" "out = Normal \<or> out = Aborted" by auto
    with t1 have "s' = s @ (t1 @ t2) \<and> list_all is_Eff (t1 @ t2) \<and> (out = Normal \<or> out = Aborted)"
      by simp
    then show ?thesis by blast
  next
    assume "o1 = Aborted"
    with p Seq.prems t1 show ?thesis by auto
  qed
next
  case (LIBMESH_THROW e)
  then show ?case by auto
next
  case (libmesh_try b hs)
  from libmesh_try.prems have "exec loc (expand_disabled b) s = (out, s')"
    by (simp only: disabled_try)
  from libmesh_try.IH(1) [OF this] show ?case .
qed simp_all

lemma disabled_raise_first:
  "exec loc (expand_disabled (Seq (LIBMESH_THROW e) q)) s = (Aborted, s)"
  by simp

text \<open>
  Claim C2. With exceptions disabled, \<open>LIBMESH_THROW(e)\<close> aborts at once and leaves the
  state as it was: the operand is dropped by the macro, so no object is constructed. Nothing
  after the raise runs: the statements that follow it, in the same block, in an enclosing
  \<open>libmesh_try\<close> or after that, are not executed, and a raise reached after statements that
  completed aborts in the state they left. A \<open>libmesh_try\<close> with its \<open>libmesh_catch\<close>
  clauses behaves as its body alone, whatever the handler bodies are. No execution of any
  call site constructs an object, enters a handler body or ends in a propagating raise:
  the events it adds are those of ordinary statements only.
\<close>

theorem terminate_mode_raise_aborts:
  "exec loc (expand False (LIBMESH_THROW e)) s = (Aborted, s)
   \<and> exec loc (expand False (Seq (LIBMESH_THROW e) q)) s = (Aborted, s)
   \<and> exec loc (expand False (libmesh_try (Seq (LIBMESH_THROW e) q) hs)) s = (Aborted, s)
   \<and> exec loc (expand False (Seq (libmesh_try (Seq (LIBMESH_THROW e) q) hs) q')) s
       = (Aborted, s)
   \<and> exec loc (expand False (Seq p (Seq (LIBMESH_THROW e) q))) s
       = (case exec loc (expand False p) s of
            (Normal, s1) \<Rightarrow> (Aborted, s1)
          | (Raised r x, s1) \<Rightarrow> (Raised r x, s1)
          | (Aborted, s1) \<Rightarrow> (Aborted, s1))
   \<and> exec loc (expand False (libmesh_try b hs)) s = exec loc (expand False b) s
   \<and> list_all is_Eff (added s (snd (exec loc (expand False p) s)))
   \<and> fst (exec loc (expand False p) s) \<noteq> Raised r' x'"
proof -
  obtain out s' where x: "exec loc (expand_disabled p) s = (out, s')"
    by (cases "exec loc (expand_disabled p) s") auto
  from disabled_only_effects(1) [OF x] obtain t
    where t: "s' = s @ t" "list_all is_Eff t" "out = Normal \<or> out = Aborted" by auto
  from x t have 7: "list_all is_Eff (added s (snd (exec loc (expand_disabled p) s)))" by simp
  from x t have 8: "fst (exec loc (expand_disabled p) s) \<noteq> Raised r' x'" by auto
  have 6: "exec loc (expand_disabled (libmesh_try b hs)) s = exec loc (expand_disabled b) s"
    by (rule disabled_try)
  have 1: "exec loc (expand_disabled (LIBMESH_THROW e)) s = (Aborted, s)" by simp
  have 2: "exec loc (expand_disabled (Seq (LIBMESH_THROW e) q)) s = (Aborted, s)"
    by (rule disabled_raise_first)
  have 3: "exec loc (expand_disabled (libmesh_try (Seq (LIBMESH_THROW e) q) hs)) s = (Aborted, s)"
    by (simp only: disabled_try disabled_raise_first)
  have 4: "exec loc (expand_disabled (Seq (libmesh_try (Seq (LIBMESH_THROW e) q) hs) q')) s
       = (Aborted, s)"
    using 3 by simp
  have 5: "exec loc (expand_disabled (Seq p (Seq (LIBMESH_THROW e) q))) s
       = (case exec loc (expand_disabled p) s of
            (Normal, s1) \<Rightarrow> (Aborted, s1)
          | (Raised r x, s1) \<Rightarrow> (Raised r x, s1)
          | (Aborted, s1) \<Rightarrow> (Aborted, s1))"
    using x by (cases out) simp_all
  show ?thesis
    unfolding expand_def if_False using 1 2 3 4 5 6 7 8 by (intro conjI)
qed






end
